theory Spec2Isabelle
  imports Main "HOL-Library.Word"
begin

section \<open>The type identifier scheme of \<^verbatim>\<open>cpp/fury/type/type.h\<close>\<close>

text \<open>
  The header declares the scoped enumeration \<^verbatim>\<open>enum class TypeId : int32_t\<close> and the
  inline function \<^verbatim>\<open>bool IsNamespacedType(int32_t type_id)\<close>. Nothing else is in the
  file: no variable, no object with static storage, no allocation.
\<close>

subsection \<open>Data model\<close>

text \<open>
  \<^verbatim>\<open>int32_t\<close> is a 32-bit word; \<open>sint\<close> reads it as the two's complement integer
  the C++ program sees.
\<close>

type_synonym int32_t = "32 word"

text \<open>
  The enumerators of \<^verbatim>\<open>TypeId\<close>, in the order of their declaration. An object of the
  enumeration type is not limited to them: the underlying type is fixed, so it holds any
  \<^verbatim>\<open>int32_t\<close>. The datatype is the set of names; objects of the enumeration are
  represented by their underlying value.
\<close>

datatype TypeId =
    BOOL
  | INT8
  | INT16
  | INT32
  | VAR_INT32
  | INT64
  | VAR_INT64
  | SLI_INT64
  | FLOAT16
  | FLOAT32
  | FLOAT64
  | STRING
  | ENUM
  | NS_ENUM
  | STRUCT
  | POLYMORPHIC_STRUCT
  | COMPATIBLE_STRUCT
  | POLYMORPHIC_COMPATIBLE_STRUCT
  | NS_STRUCT
  | NS_POLYMORPHIC_STRUCT
  | NS_COMPATIBLE_STRUCT
  | NS_POLYMORPHIC_COMPATIBLE_STRUCT
  | EXT
  | POLYMORPHIC_EXT
  | NS_EXT
  | NS_POLYMORPHIC_EXT
  | LIST
  | SET
  | MAP
  | DURATION
  | TIMESTAMP
  | LOCAL_DATE
  | DECIMAL
  | BINARY
  | ARRAY
  | BOOL_ARRAY
  | INT8_ARRAY
  | INT16_ARRAY
  | INT32_ARRAY
  | INT64_ARRAY
  | FLOAT16_ARRAY
  | FLOAT32_ARRAY
  | FLOAT64_ARRAY
  | ARROW_RECORD_BATCH
  | ARROW_TABLE

text \<open>The discriminant written after each enumerator.\<close>

primrec TypeId_value :: "TypeId \<Rightarrow> int32_t" where
  "TypeId_value BOOL = 1"
| "TypeId_value INT8 = 2"
| "TypeId_value INT16 = 3"
| "TypeId_value INT32 = 4"
| "TypeId_value VAR_INT32 = 5"
| "TypeId_value INT64 = 6"
| "TypeId_value VAR_INT64 = 7"
| "TypeId_value SLI_INT64 = 8"
| "TypeId_value FLOAT16 = 9"
| "TypeId_value FLOAT32 = 10"
| "TypeId_value FLOAT64 = 11"
| "TypeId_value STRING = 12"
| "TypeId_value ENUM = 13"
| "TypeId_value NS_ENUM = 14"
| "TypeId_value STRUCT = 15"
| "TypeId_value POLYMORPHIC_STRUCT = 16"
| "TypeId_value COMPATIBLE_STRUCT = 17"
| "TypeId_value POLYMORPHIC_COMPATIBLE_STRUCT = 18"
| "TypeId_value NS_STRUCT = 19"
| "TypeId_value NS_POLYMORPHIC_STRUCT = 20"
| "TypeId_value NS_COMPATIBLE_STRUCT = 21"
| "TypeId_value NS_POLYMORPHIC_COMPATIBLE_STRUCT = 22"
| "TypeId_value EXT = 23"
| "TypeId_value POLYMORPHIC_EXT = 24"
| "TypeId_value NS_EXT = 25"
| "TypeId_value NS_POLYMORPHIC_EXT = 26"
| "TypeId_value LIST = 27"
| "TypeId_value SET = 28"
| "TypeId_value MAP = 29"
| "TypeId_value DURATION = 30"
| "TypeId_value TIMESTAMP = 31"
| "TypeId_value LOCAL_DATE = 32"
| "TypeId_value DECIMAL = 33"
| "TypeId_value BINARY = 34"
| "TypeId_value ARRAY = 35"
| "TypeId_value BOOL_ARRAY = 36"
| "TypeId_value INT8_ARRAY = 37"
| "TypeId_value INT16_ARRAY = 38"
| "TypeId_value INT32_ARRAY = 39"
| "TypeId_value INT64_ARRAY = 40"
| "TypeId_value FLOAT16_ARRAY = 41"
| "TypeId_value FLOAT32_ARRAY = 42"
| "TypeId_value FLOAT64_ARRAY = 43"
| "TypeId_value ARROW_RECORD_BATCH = 44"
| "TypeId_value ARROW_TABLE = 45"

text \<open>The enumerator list of the declaration, top to bottom.\<close>

definition TypeId_enumerators :: "TypeId list" where
  "TypeId_enumerators =
    [BOOL, INT8, INT16, INT32, VAR_INT32, INT64, VAR_INT64, SLI_INT64, FLOAT16, FLOAT32,
     FLOAT64, STRING, ENUM, NS_ENUM, STRUCT, POLYMORPHIC_STRUCT, COMPATIBLE_STRUCT,
     POLYMORPHIC_COMPATIBLE_STRUCT, NS_STRUCT, NS_POLYMORPHIC_STRUCT,
     NS_COMPATIBLE_STRUCT, NS_POLYMORPHIC_COMPATIBLE_STRUCT, EXT, POLYMORPHIC_EXT,
     NS_EXT, NS_POLYMORPHIC_EXT, LIST, SET, MAP, DURATION, TIMESTAMP, LOCAL_DATE,
     DECIMAL, BINARY, ARRAY, BOOL_ARRAY, INT8_ARRAY, INT16_ARRAY, INT32_ARRAY,
     INT64_ARRAY, FLOAT16_ARRAY, FLOAT32_ARRAY, FLOAT64_ARRAY, ARROW_RECORD_BATCH,
     ARROW_TABLE]"

subsection \<open>The switch statement\<close>

text \<open>
  The body of the switch in \<^verbatim>\<open>IsNamespacedType\<close> consists of three kinds of lines:
  \<^verbatim>\<open>case TypeId::X:\<close>, \<^verbatim>\<open>default:\<close> and \<^verbatim>\<open>return b;\<close>.
\<close>

datatype line = Case TypeId | Default | Return bool

text \<open>
  Control that has entered the body runs downwards. Labels do nothing (fall-through), the
  first \<^verbatim>\<open>return\<close> ends the function with its value. \<open>None\<close> is control leaving
  the switch with no \<^verbatim>\<open>return\<close> executed; the function body ends right after the
  switch, so this is flowing off the end of a function that returns \<^verbatim>\<open>bool\<close>.
\<close>

fun run :: "line list \<Rightarrow> bool option" where
  "run [] = None"
| "run (Case c # rest) = run rest"
| "run (Default # rest) = run rest"
| "run (Return b # rest) = Some b"

text \<open>The lines after the \<^verbatim>\<open>case\<close> label whose constant equals the condition.\<close>

fun goto_case :: "int32_t \<Rightarrow> line list \<Rightarrow> line list option" where
  "goto_case v [] = None"
| "goto_case v (Case c # rest) =
     (if v = TypeId_value c then Some rest else goto_case v rest)"
| "goto_case v (Default # rest) = goto_case v rest"
| "goto_case v (Return b # rest) = goto_case v rest"

text \<open>The lines after the \<^verbatim>\<open>default\<close> label.\<close>

fun goto_default :: "line list \<Rightarrow> line list option" where
  "goto_default [] = None"
| "goto_default (Case c # rest) = goto_default rest"
| "goto_default (Default # rest) = Some rest"
| "goto_default (Return b # rest) = goto_default rest"

text \<open>
  A switch jumps to the matching \<^verbatim>\<open>case\<close> label; with no match, to \<^verbatim>\<open>default\<close>;
  with neither, past the whole body.
\<close>

definition switch :: "int32_t \<Rightarrow> line list \<Rightarrow> bool option" where
  "switch v body =
     (case goto_case v body of
        Some rest \<Rightarrow> run rest
      | None \<Rightarrow> (case goto_default body of Some rest \<Rightarrow> run rest | None \<Rightarrow> None))"

subsection \<open>\<^verbatim>\<open>IsNamespacedType\<close>\<close>

text \<open>
  \<^verbatim>\<open>static_cast<TypeId>(type_id)\<close>: the enumeration has the fixed underlying type
  \<^verbatim>\<open>int32_t\<close>, so the conversion is defined for every argument and keeps the value.
\<close>

definition static_cast_TypeId :: "int32_t \<Rightarrow> int32_t" where
  "static_cast_TypeId type_id = type_id"

text \<open>The lines between the braces of the switch, as written.\<close>

definition IsNamespacedType_body :: "line list" where
  "IsNamespacedType_body =
     [Case NS_ENUM,
      Case NS_STRUCT,
      Case NS_POLYMORPHIC_STRUCT,
      Case NS_COMPATIBLE_STRUCT,
      Case NS_POLYMORPHIC_COMPATIBLE_STRUCT,
      Case NS_EXT,
      Case NS_POLYMORPHIC_EXT,
      Return True,
      Default,
      Return False]"

text \<open>
  The function is the switch and nothing else. \<open>Some b\<close> is the call returning \<open>b\<close>;
  \<open>None\<close> would be a call that reaches the closing brace without a value.
\<close>

definition IsNamespacedType :: "int32_t \<Rightarrow> bool option" where
  "IsNamespacedType type_id = switch (static_cast_TypeId type_id) IsNamespacedType_body"

section \<open>Auxiliary facts\<close>

subsection \<open>Small signed integers and their words\<close>

lemma int32_eq_of_sint:
  fixes v :: int32_t
  shows "sint v = k \<Longrightarrow> v = word_of_int k"
  by auto

lemma int32_in_1_45:
  fixes v :: int32_t
  assumes "1 \<le> sint v" and "sint v \<le> 45"
  shows "v \<in> word_of_int ` {1..45}"
proof -
  from assms have "sint v \<in> {1..45}" by simp
  then have "word_of_int (sint v) \<in> (word_of_int ` {1..45} :: int32_t set)"
    by (rule imageI)
  then show ?thesis by simp
qed

lemma sint_namespaced_iff:
  fixes v :: int32_t
  shows "(sint v \<in> {14, 19, 20, 21, 22, 25, 26}) = (v \<in> {14, 19, 20, 21, 22, 25, 26})"
  by (auto dest: int32_eq_of_sint)

subsection \<open>The enumerators\<close>

lemma TypeId_enumerators_all: "t \<in> set TypeId_enumerators"
  by (cases t) (simp_all add: TypeId_enumerators_def)

lemma TypeId_values_list:
  "map TypeId_value TypeId_enumerators = map word_of_int [1..45]"
  by (simp add: TypeId_enumerators_def upto_rec1)

lemma TypeId_values_distinct: "distinct (map TypeId_value TypeId_enumerators)"
  unfolding TypeId_values_list by (simp add: upto_rec1)

lemma TypeId_value_inj: "inj TypeId_value"
proof -
  have "inj_on TypeId_value (set TypeId_enumerators)"
    using TypeId_values_distinct by (simp only: distinct_map)
  moreover have "set TypeId_enumerators = UNIV"
    using TypeId_enumerators_all by blast
  ultimately show ?thesis by simp
qed

lemma TypeId_value_range: "range TypeId_value = word_of_int ` {1..45}"
proof -
  have "range TypeId_value = set (map TypeId_value TypeId_enumerators)"
    using TypeId_enumerators_all by auto
  also have "\<dots> = word_of_int ` set [1..45]"
    by (simp only: TypeId_values_list set_map)
  finally show ?thesis by simp
qed

subsection \<open>What the switch computes\<close>

text \<open>
  Running the switch on an arbitrary condition: the seven \<^verbatim>\<open>case\<close> constants lead to
  \<^verbatim>\<open>return true\<close>, everything else goes through \<^verbatim>\<open>default\<close> to
  \<^verbatim>\<open>return false\<close>.
\<close>

lemma IsNamespacedType_eq:
  "IsNamespacedType v = Some (v \<in> {14, 19, 20, 21, 22, 25, 26})"
  by (simp add: IsNamespacedType_def static_cast_TypeId_def IsNamespacedType_body_def
      switch_def)

text \<open>On every condition the switch reaches a \<^verbatim>\<open>return\<close>.\<close>

lemma IsNamespacedType_returns:
  "\<exists>b. IsNamespacedType v = Some b"
  by (simp add: IsNamespacedType_eq)

text \<open>
  The \<^verbatim>\<open>default\<close> label and the \<^verbatim>\<open>return\<close> below it are what makes the result
  defined on unmatched conditions: the same switch cut off before \<^verbatim>\<open>default\<close> leaves
  the value 0 without a result.
\<close>

lemma switch_without_default:
  "switch 0 (take 8 IsNamespacedType_body) = None"
  by (simp add: IsNamespacedType_body_def switch_def)

section \<open>The registry\<close>

text \<open>
  C1. Every enumerator of \<^verbatim>\<open>TypeId\<close> has exactly its published wire value, read as a
  signed 32-bit integer: BOOL is 1, INT8 is 2, and so on in steps of one up to
  ARROW_TABLE, which is 45.
\<close>

theorem TypeId_wire_values:
  "sint (TypeId_value BOOL) = 1
  \<and> sint (TypeId_value INT8) = 2
  \<and> sint (TypeId_value INT16) = 3
  \<and> sint (TypeId_value INT32) = 4
  \<and> sint (TypeId_value VAR_INT32) = 5
  \<and> sint (TypeId_value INT64) = 6
  \<and> sint (TypeId_value VAR_INT64) = 7
  \<and> sint (TypeId_value SLI_INT64) = 8
  \<and> sint (TypeId_value FLOAT16) = 9
  \<and> sint (TypeId_value FLOAT32) = 10
  \<and> sint (TypeId_value FLOAT64) = 11
  \<and> sint (TypeId_value STRING) = 12
  \<and> sint (TypeId_value ENUM) = 13
  \<and> sint (TypeId_value NS_ENUM) = 14
  \<and> sint (TypeId_value STRUCT) = 15
  \<and> sint (TypeId_value POLYMORPHIC_STRUCT) = 16
  \<and> sint (TypeId_value COMPATIBLE_STRUCT) = 17
  \<and> sint (TypeId_value POLYMORPHIC_COMPATIBLE_STRUCT) = 18
  \<and> sint (TypeId_value NS_STRUCT) = 19
  \<and> sint (TypeId_value NS_POLYMORPHIC_STRUCT) = 20
  \<and> sint (TypeId_value NS_COMPATIBLE_STRUCT) = 21
  \<and> sint (TypeId_value NS_POLYMORPHIC_COMPATIBLE_STRUCT) = 22
  \<and> sint (TypeId_value EXT) = 23
  \<and> sint (TypeId_value POLYMORPHIC_EXT) = 24
  \<and> sint (TypeId_value NS_EXT) = 25
  \<and> sint (TypeId_value NS_POLYMORPHIC_EXT) = 26
  \<and> sint (TypeId_value LIST) = 27
  \<and> sint (TypeId_value SET) = 28
  \<and> sint (TypeId_value MAP) = 29
  \<and> sint (TypeId_value DURATION) = 30
  \<and> sint (TypeId_value TIMESTAMP) = 31
  \<and> sint (TypeId_value LOCAL_DATE) = 32
  \<and> sint (TypeId_value DECIMAL) = 33
  \<and> sint (TypeId_value BINARY) = 34
  \<and> sint (TypeId_value ARRAY) = 35
  \<and> sint (TypeId_value BOOL_ARRAY) = 36
  \<and> sint (TypeId_value INT8_ARRAY) = 37
  \<and> sint (TypeId_value INT16_ARRAY) = 38
  \<and> sint (TypeId_value INT32_ARRAY) = 39
  \<and> sint (TypeId_value INT64_ARRAY) = 40
  \<and> sint (TypeId_value FLOAT16_ARRAY) = 41
  \<and> sint (TypeId_value FLOAT32_ARRAY) = 42
  \<and> sint (TypeId_value FLOAT64_ARRAY) = 43
  \<and> sint (TypeId_value ARROW_RECORD_BATCH) = 44
  \<and> sint (TypeId_value ARROW_TABLE) = 45"
  by simp

text \<open>
  C5. The mapping from enumerators to integer values is injective: two distinct
  enumerators never have the same value.
\<close>

theorem TypeId_value_injective:
  "t1 \<noteq> t2 \<Longrightarrow> TypeId_value t1 \<noteq> TypeId_value t2"
  using TypeId_value_inj by (auto dest: injD)

theorem TypeId_value_injective_witness:
  "NS_ENUM \<noteq> NS_STRUCT \<and> TypeId_value NS_ENUM \<noteq> TypeId_value NS_STRUCT"
  using TypeId_value_injective [of NS_ENUM NS_STRUCT] by simp

text \<open>
  C7. Every value assigned to an enumerator is small and strictly positive: it lies
  between 1 and 45.
\<close>

theorem TypeId_value_bounds:
  "1 \<le> sint (TypeId_value t) \<and> sint (TypeId_value t) \<le> 45"
  by (cases t) simp_all

text \<open>
  C9. The defined values are the contiguous range from 1 to 45, without a gap: a
  32-bit signed integer is the value of some enumerator if and only if it lies between 1
  and 45.
\<close>

theorem TypeId_values_contiguous:
  "(\<exists>t. TypeId_value t = v) \<longleftrightarrow> (1 \<le> sint v \<and> sint v \<le> 45)"
proof
  assume "\<exists>t. TypeId_value t = v"
  then obtain t where "TypeId_value t = v" ..
  then show "1 \<le> sint v \<and> sint v \<le> 45"
    by (cases t) auto
next
  assume "1 \<le> sint v \<and> sint v \<le> 45"
  then have "v \<in> range TypeId_value"
    unfolding TypeId_value_range by (simp only: int32_in_1_45)
  then show "\<exists>t. TypeId_value t = v"
    by auto
qed

section \<open>The namespace classifier\<close>

text \<open>
  C2. For every 32-bit signed integer in the defined range from 1 to 45,
  \<^verbatim>\<open>IsNamespacedType\<close> returns true if and only if the integer is one of 14, 19, 20,
  21, 22, 25, 26, and returns false for every other value of that range.
\<close>

theorem IsNamespacedType_defined_range:
  "1 \<le> sint v \<Longrightarrow> sint v \<le> 45 \<Longrightarrow>
     IsNamespacedType v = Some (sint v \<in> {14, 19, 20, 21, 22, 25, 26})"
  by (simp only: IsNamespacedType_eq sint_namespaced_iff)

theorem IsNamespacedType_defined_range_witness:
  "1 \<le> sint (14 :: int32_t) \<and> sint (14 :: int32_t) \<le> 45
   \<and> IsNamespacedType 14 = Some (sint (14 :: int32_t) \<in> {14, 19, 20, 21, 22, 25, 26})
   \<and> 1 \<le> sint (27 :: int32_t) \<and> sint (27 :: int32_t) \<le> 45
   \<and> IsNamespacedType 27 = Some (sint (27 :: int32_t) \<in> {14, 19, 20, 21, 22, 25, 26})"
  using IsNamespacedType_defined_range [of 14] IsNamespacedType_defined_range [of 27]
  by simp

text \<open>
  C3. For every 32-bit signed integer outside the range from 1 to 45 (0, -1 and 1000
  among them), \<^verbatim>\<open>IsNamespacedType\<close> returns false: an unknown value is the ordinary
  non-namespaced case, not an error.
\<close>

theorem IsNamespacedType_undefined_value:
  "\<not> (1 \<le> sint v \<and> sint v \<le> 45) \<Longrightarrow> IsNamespacedType v = Some False"
  unfolding IsNamespacedType_eq by auto

theorem IsNamespacedType_undefined_value_witness:
  "\<not> (1 \<le> sint (0 :: int32_t) \<and> sint (0 :: int32_t) \<le> 45)
   \<and> IsNamespacedType 0 = Some False
   \<and> \<not> (1 \<le> sint (- 1 :: int32_t) \<and> sint (- 1 :: int32_t) \<le> 45)
   \<and> IsNamespacedType (- 1) = Some False
   \<and> \<not> (1 \<le> sint (1000 :: int32_t) \<and> sint (1000 :: int32_t) \<le> 45)
   \<and> IsNamespacedType 1000 = Some False"
  using IsNamespacedType_undefined_value [of 0] IsNamespacedType_undefined_value [of "- 1"]
    IsNamespacedType_undefined_value [of 1000]
  by simp

text \<open>
  C10. The integers classified as namespaced are not a contiguous interval: every
  value from 15 to 18 and every value from 23 to 24 is classified false, although 14
  and 25, which bracket them, are classified true. Hence no range check
  \<open>lo \<le> v \<and> v \<le> hi\<close> computes the classifier.
\<close>

theorem IsNamespacedType_not_interval:
  "(15 \<le> sint v \<and> sint v \<le> 18 \<longrightarrow> IsNamespacedType v = Some False)
   \<and> (23 \<le> sint v \<and> sint v \<le> 24 \<longrightarrow> IsNamespacedType v = Some False)
   \<and> IsNamespacedType 14 = Some True
   \<and> IsNamespacedType 25 = Some True
   \<and> \<not> (\<exists>lo hi. \<forall>w. IsNamespacedType w = Some (lo \<le> sint w \<and> sint w \<le> hi))"
proof -
  have gap1: "IsNamespacedType v = Some False" if "15 \<le> sint v \<and> sint v \<le> 18"
  proof -
    from that have "sint v \<notin> {14, 19, 20, 21, 22, 25, 26}" by auto
    then show ?thesis by (simp only: IsNamespacedType_eq sint_namespaced_iff)
  qed
  have gap2: "IsNamespacedType v = Some False" if "23 \<le> sint v \<and> sint v \<le> 24"
  proof -
    from that have "sint v \<notin> {14, 19, 20, 21, 22, 25, 26}" by auto
    then show ?thesis by (simp only: IsNamespacedType_eq sint_namespaced_iff)
  qed
  have low: "IsNamespacedType 14 = Some True"
    by (simp add: IsNamespacedType_eq)
  have high: "IsNamespacedType 25 = Some True"
    by (simp add: IsNamespacedType_eq)
  have no_range: "\<not> (\<exists>lo hi. \<forall>w. IsNamespacedType w = Some (lo \<le> sint w \<and> sint w \<le> hi))"
  proof
    assume "\<exists>lo hi. \<forall>w. IsNamespacedType w = Some (lo \<le> sint w \<and> sint w \<le> hi)"
    then obtain lo hi
      where range: "\<And>w. IsNamespacedType w = Some (lo \<le> sint w \<and> sint w \<le> hi)"
      by blast
    from range [of 14] low have "lo \<le> 14" by simp
    moreover from range [of 25] high have "25 \<le> hi" by simp
    moreover from range [of 15] have "\<not> (lo \<le> 15 \<and> 15 \<le> hi)"
      by (simp add: IsNamespacedType_eq)
    ultimately show False by arith
  qed
  from gap1 gap2 low high no_range show ?thesis by blast
qed

theorem IsNamespacedType_not_interval_witness:
  "15 \<le> sint (16 :: int32_t) \<and> sint (16 :: int32_t) \<le> 18
   \<and> IsNamespacedType 16 = Some False
   \<and> 23 \<le> sint (24 :: int32_t) \<and> sint (24 :: int32_t) \<le> 24
   \<and> IsNamespacedType 24 = Some False"
  using IsNamespacedType_not_interval [of 16] IsNamespacedType_not_interval [of 24]
  by simp

end
